theory Spec2Isabelle
  imports Main "HOL-Library.Sublist"
begin

section \<open>Python values and exceptions\<close>

text \<open>
  The program (\<^verbatim>\<open>main.py\<close>) handles two kinds of data: text and decoded JSON documents.
  A Python \<^verbatim>\<open>str\<close> is modelled as a \<^typ>\<open>string\<close>, one \<^typ>\<open>char\<close> per code point (so the
  model covers the code points below 256). A decoded JSON document is a Python object
  built from \<^verbatim>\<open>None\<close>, \<^verbatim>\<open>bool\<close>, \<^verbatim>\<open>int\<close>, \<^verbatim>\<open>float\<close>, \<^verbatim>\<open>str\<close>, \<^verbatim>\<open>list\<close> and \<^verbatim>\<open>dict\<close>; a
  \<^verbatim>\<open>dict\<close> is the association list of its items (all keys are \<^verbatim>\<open>str\<close>), a \<^verbatim>\<open>float\<close> is
  carried as the text that \<^verbatim>\<open>json.dumps\<close> writes for it, since the program never computes
  with numbers.
\<close>

datatype json =
    JNull
  | JBool bool
  | JInt int
  | JFloat string
  | JString string
  | JArray "json list"
  | JObject "(string \<times> json) list"

text \<open>
  The exceptions that the statements of \<^verbatim>\<open>get_readme_from_llm\<close> can raise.
  \<^verbatim>\<open>RequestException\<close>, \<^verbatim>\<open>KeyError\<close> and \<^verbatim>\<open>IndexError\<close> carry \<^verbatim>\<open>str(e)\<close>, which the handlers
  format into the returned text. \<^verbatim>\<open>requests.exceptions.HTTPError\<close> and the
  \<^verbatim>\<open>JSONDecodeError\<close> of \<^verbatim>\<open>requests\<close> are subclasses of \<^verbatim>\<open>RequestException\<close> and are caught as
  such, so they are values of that constructor. \<^verbatim>\<open>TypeError\<close> is what subscripting an
  object of the wrong type raises; no handler of the program formats its message.
\<close>

datatype exc =
    RequestException string
  | KeyError string
  | IndexError string
  | TypeError

definition and_then :: "exc + 'a \<Rightarrow> ('a \<Rightarrow> exc + 'b) \<Rightarrow> exc + 'b" where
  "and_then r f = (case r of Inl e \<Rightarrow> Inl e | Inr v \<Rightarrow> f v)"

fun show_nat :: "nat \<Rightarrow> string" where
  "show_nat n =
     (if n < 10 then [char_of (48 + n)]
      else show_nat (n div 10) @ [char_of (48 + n mod 10)])"

declare show_nat.simps [simp del]

text \<open>
  \<^verbatim>\<open>obj['key']\<close>: a \<^verbatim>\<open>dict\<close> returns the value or raises \<^verbatim>\<open>KeyError(key)\<close>, whose \<^verbatim>\<open>str\<close> is the
  \<^verbatim>\<open>repr\<close> of the key (the key between single quotes, for the four key literals of the
  program, which hold letters only). A \<^verbatim>\<open>list\<close>, a \<^verbatim>\<open>str\<close>, a number, a \<^verbatim>\<open>bool\<close> and \<^verbatim>\<open>None\<close>
  raise \<^verbatim>\<open>TypeError\<close>.
\<close>

fun subscript_key :: "json \<Rightarrow> string \<Rightarrow> exc + json" where
  "subscript_key (JObject items) k =
     (case map_of items k of
        None \<Rightarrow> Inl (KeyError ([CHR 0x27] @ k @ [CHR 0x27]))
      | Some v \<Rightarrow> Inr v)"
| "subscript_key _ k = Inl TypeError"

text \<open>
  \<^verbatim>\<open>obj[i]\<close> for a literal \<open>i \<ge> 0\<close>: a \<^verbatim>\<open>list\<close> returns the element or raises \<^verbatim>\<open>IndexError\<close>; a
  \<^verbatim>\<open>str\<close> returns the one-character string or raises \<^verbatim>\<open>IndexError\<close>; a \<^verbatim>\<open>dict\<close> decoded from
  JSON has no integer key and raises \<^verbatim>\<open>KeyError(i)\<close>; a number, a \<^verbatim>\<open>bool\<close> and \<^verbatim>\<open>None\<close> raise
  \<^verbatim>\<open>TypeError\<close>.
\<close>

fun subscript_index :: "json \<Rightarrow> nat \<Rightarrow> exc + json" where
  "subscript_index (JArray xs) i =
     (if i < length xs then Inr (xs ! i) else Inl (IndexError ''list index out of range''))"
| "subscript_index (JString s) i =
     (if i < length s then Inr (JString [s ! i])
      else Inl (IndexError ''string index out of range''))"
| "subscript_index (JObject items) i = Inl (KeyError (show_nat i))"
| "subscript_index _ i = Inl TypeError"

section \<open>Serialisation: \<^verbatim>\<open>json.dumps\<close>\<close>

text \<open>
  \<^verbatim>\<open>json.dumps\<close> with its defaults: \<^verbatim>\<open>ensure_ascii=True\<close>, item separator \<^verbatim>\<open>", "\<close>, key
  separator \<^verbatim>\<open>": "\<close>. In a string, the backslash, the double quote and every character
  outside the range from space to tilde are escaped.
\<close>

definition hex_digit :: "nat \<Rightarrow> char" where
  "hex_digit n = ''0123456789abcdef'' ! (n mod 16)"

definition escape_char :: "char \<Rightarrow> string" where
  "escape_char c =
     (if c = CHR 0x5C then [CHR 0x5C, CHR 0x5C]
      else if c = CHR 0x22 then [CHR 0x5C, CHR 0x22]
      else if c = CHR 0x08 then [CHR 0x5C, CHR ''b'']
      else if c = CHR 0x0C then [CHR 0x5C, CHR ''f'']
      else if c = CHR 0x0A then [CHR 0x5C, CHR ''n'']
      else if c = CHR 0x0D then [CHR 0x5C, CHR ''r'']
      else if c = CHR 0x09 then [CHR 0x5C, CHR ''t'']
      else if 32 \<le> (of_char c :: nat) \<and> (of_char c :: nat) \<le> 126 then [c]
      else [CHR 0x5C, CHR ''u'', CHR ''0'', CHR ''0'',
            hex_digit ((of_char c :: nat) div 16), hex_digit (of_char c :: nat)])"

definition dumps_str :: "string \<Rightarrow> string" where
  "dumps_str s = [CHR 0x22] @ concat (map escape_char s) @ [CHR 0x22]"

fun join_items :: "string list \<Rightarrow> string" where
  "join_items [] = []"
| "join_items [x] = x"
| "join_items (x # y # ys) = x @ '', '' @ join_items (y # ys)"

fun json_dumps :: "json \<Rightarrow> string" where
  "json_dumps JNull = ''null''"
| "json_dumps (JBool b) = (if b then ''true'' else ''false'')"
| "json_dumps (JInt i) = (if i < 0 then ''-'' @ show_nat (nat (- i)) else show_nat (nat i))"
| "json_dumps (JFloat r) = r"
| "json_dumps (JString s) = dumps_str s"
| "json_dumps (JArray xs) = ''['' @ join_items (map json_dumps xs) @ '']''"
| "json_dumps (JObject items) =
     ''{'' @ join_items (map (\<lambda>(k, v). dumps_str k @ '': '' @ json_dumps v) items) @ ''}''"

section \<open>The HTTP exchange\<close>

text \<open>
  The arguments of the one call \<^verbatim>\<open>requests.post(url, headers=..., data=...)\<close> are a
  \<open>request\<close>. The remote side is a parameter of the model: a function from the request to
  the outcome of the call, which is either a \<^verbatim>\<open>RequestException\<close> raised by \<^verbatim>\<open>requests.post\<close>
  (DNS, connection, TLS failure; \<open>Failed\<close> carries \<^verbatim>\<open>str(e)\<close>) or a response. Of a response
  the program uses the status line (\<^verbatim>\<open>raise_for_status\<close>) and the decoded body
  (\<^verbatim>\<open>response.json()\<close>): \<open>json_body\<close> is \<open>Inr\<close> of the decoded document, or \<open>Inl\<close> of the message
  of the \<^verbatim>\<open>JSONDecodeError\<close> that \<^verbatim>\<open>response.json()\<close> raises when the body is not JSON.
\<close>

record request =
  http_method :: string
  url :: string
  headers :: "(string \<times> string) list"
  data :: string

record response =
  status_code :: nat
  reason :: string
  response_url :: string
  json_body :: "string + json"

datatype post_outcome = Failed string | Responded response

type_synonym network = "request \<Rightarrow> post_outcome"

text \<open>
  \<^verbatim>\<open>requests.post\<close> sends the request (the first component is the list of requests that the
  call has put on the network) and raises or returns the response.
\<close>

definition requests_post :: "network \<Rightarrow> request \<Rightarrow> request list \<times> (exc + response)" where
  "requests_post net req =
     ([req], case net req of Failed msg \<Rightarrow> Inl (RequestException msg) | Responded r \<Rightarrow> Inr r)"

text \<open>
  \<^verbatim>\<open>Response.raise_for_status\<close> of \<^verbatim>\<open>requests\<close>: a status from 400 to 499 is a client error, one
  from 500 to 599 a server error, and both raise \<^verbatim>\<open>HTTPError\<close>; any other status returns.
\<close>

definition http_error_msg :: "response \<Rightarrow> string" where
  "http_error_msg r =
     (if 400 \<le> status_code r \<and> status_code r < 500
      then show_nat (status_code r) @ '' Client Error: '' @ reason r @ '' for url: '' @ response_url r
      else if 500 \<le> status_code r \<and> status_code r < 600
      then show_nat (status_code r) @ '' Server Error: '' @ reason r @ '' for url: '' @ response_url r
      else [])"

definition raise_for_status :: "response \<Rightarrow> exc + unit" where
  "raise_for_status r =
     (if http_error_msg r \<noteq> [] then Inl (RequestException (http_error_msg r)) else Inr ())"

definition response_json :: "response \<Rightarrow> exc + json" where
  "response_json r =
     (case json_body r of Inl msg \<Rightarrow> Inl (RequestException msg) | Inr doc \<Rightarrow> Inr doc)"

section \<open>The generator: \<^verbatim>\<open>get_readme_from_llm\<close>\<close>

definition API_URL :: string where
  "API_URL = ''https://generativelanguage.googleapis.com/v1beta/models/gemini-2.5-flash-preview-05-20:generateContent''"

text \<open>The f-string of the source, line by line; the description is spliced in as it is.\<close>

definition prompt :: "string \<Rightarrow> string" where
  \<open>prompt project_description =
     ''\<newline>'' @
     ''    You are a professional GitHub project assistant. Your task is to generate a comprehensive and well-structured README.md file\<newline>'' @
     ''    for a new software project. The README should be written in Markdown format and include the following sections:\<newline>'' @
     ''    1.  A clear and catchy title.\<newline>'' @
     ''    2.  A brief but engaging description.\<newline>'' @
     ''    3.  A "Features" section using a bulleted list.\<newline>'' @
     ''    4.  A "Getting Started" section with instructions for installation and usage.\<newline>'' @
     ''    5.  A "Contributing" section.\<newline>'' @
     ''    6.  A "License" section.\<newline>'' @
     ''\<newline>'' @
     ''    Based on the following project description, please generate the README content.\<newline>'' @
     ''    \<newline>'' @
     ''    Project Description: "'' @ project_description @ ''"\<newline>'' @
     ''    ''\<close>

definition payload :: "string \<Rightarrow> json" where
  "payload p =
     JObject [(''contents'', JArray [JObject [(''parts'', JArray [JObject [(''text'', JString p)]])]])]"

definition build_request :: "string \<Rightarrow> string \<Rightarrow> request" where
  "build_request project_description api_key =
     \<lparr>http_method = ''POST'',
      url = API_URL @ ''?key='' @ api_key,
      headers = [(''Content-Type'', ''application/json''), (''x-goog-api-key'', api_key)],
      data = json_dumps (payload (prompt project_description))\<rparr>"

text \<open>
  The chain of subscripts \<^verbatim>\<open>response_json['candidates'][0]['content']['parts'][0]['text']\<close>,
  evaluated left to right; the first subscript that raises ends it.
\<close>

definition extract_text :: "json \<Rightarrow> exc + json" where
  "extract_text doc =
     and_then (subscript_key doc ''candidates'') (\<lambda>candidates.
     and_then (subscript_index candidates 0) (\<lambda>candidate.
     and_then (subscript_key candidate ''content'') (\<lambda>content.
     and_then (subscript_key content ''parts'') (\<lambda>parts.
     and_then (subscript_index parts 0) (\<lambda>part.
     subscript_key part ''text'')))))"

text \<open>The statements of the \<^verbatim>\<open>try\<close> block, in order.\<close>

definition try_block :: "network \<Rightarrow> request \<Rightarrow> request list \<times> (exc + json)" where
  "try_block net req =
     (case requests_post net req of
        (issued, posted) \<Rightarrow>
          (issued,
           and_then posted (\<lambda>response.
           and_then (raise_for_status response) (\<lambda>_.
           and_then (response_json response) (\<lambda>doc.
           extract_text doc)))))"

text \<open>
  The two \<^verbatim>\<open>except\<close> clauses: \<^verbatim>\<open>RequestException\<close>, then \<^verbatim>\<open>(KeyError, IndexError)\<close>. An exception
  of another class leaves the function.
\<close>

fun except_clauses :: "exc + json \<Rightarrow> exc + json" where
  "except_clauses (Inl (RequestException e)) =
     Inr (JString (''Error connecting to the API: '' @ e))"
| "except_clauses (Inl (KeyError e)) =
     Inr (JString (''Error parsing API response: The response structure is invalid. '' @ e))"
| "except_clauses (Inl (IndexError e)) =
     Inr (JString (''Error parsing API response: The response structure is invalid. '' @ e))"
| "except_clauses (Inl TypeError) = Inl TypeError"
| "except_clauses (Inr generated_text) = Inr generated_text"

text \<open>
  The function returns the requests it has issued, in order, and either the returned
  object (\<open>Inr\<close>) or the exception that leaves it (\<open>Inl\<close>).
\<close>

definition get_readme_from_llm :: "network \<Rightarrow> string \<Rightarrow> string \<Rightarrow> request list \<times> (exc + json)" where
  "get_readme_from_llm net project_description api_key =
     (case try_block net (build_request project_description api_key) of
        (issued, outcome) \<Rightarrow> (issued, except_clauses outcome))"

section \<open>The process: \<^verbatim>\<open>main\<close>\<close>

text \<open>
  \<^verbatim>\<open>main\<close> is modelled from the point where \<^verbatim>\<open>parser.parse_args()\<close> has returned the namespace:
  its argument \<open>description\<close> is \<^verbatim>\<open>args.description\<close>. (When the command line has no
  description, \<^verbatim>\<open>argparse\<close> itself ends the process before any other statement of \<^verbatim>\<open>main\<close>
  runs.) The environment is a map from variable names to values, \<^verbatim>\<open>os.getenv\<close> its lookup;
  \<^verbatim>\<open>not api_key\<close> holds for \<^verbatim>\<open>None\<close> and for the empty string.
  A run is described by the objects passed to \<^verbatim>\<open>print\<close>, in order, the way the process ends,
  and the requests issued. A process that ends by an uncaught exception has exit status 1.
\<close>

datatype ending = Returned | SysExit int | Uncaught exc

fun exit_status :: "ending \<Rightarrow> int" where
  "exit_status Returned = 0"
| "exit_status (SysExit n) = n"
| "exit_status (Uncaught e) = 1"

record run =
  stdout :: "json list"
  ending :: ending
  sent :: "request list"

definition main :: "(string \<rightharpoonup> string) \<Rightarrow> network \<Rightarrow> string \<Rightarrow> run" where
  "main environ net description =
     (case environ ''API_KEY'' of
        None \<Rightarrow>
          \<lparr>stdout = [JString ''Error: API key not found. Please set the 'API_KEY' environment variable.''],
           ending = SysExit 1, sent = []\<rparr>
      | Some api_key \<Rightarrow>
          if api_key = [] then
            \<lparr>stdout = [JString ''Error: API key not found. Please set the 'API_KEY' environment variable.''],
             ending = SysExit 1, sent = []\<rparr>
          else
            (case get_readme_from_llm net description api_key of
               (reqs, Inl e) \<Rightarrow>
                 \<lparr>stdout = [JString ''Generating README.md...''], ending = Uncaught e, sent = reqs\<rparr>
             | (reqs, Inr readme_content) \<Rightarrow>
                 \<lparr>stdout = [JString ''Generating README.md...'', readme_content],
                  ending = Returned, sent = reqs\<rparr>))"

section \<open>Properties of the generator\<close>

lemma issued_requests: "fst (get_readme_from_llm net d k) = [build_request d k]"
  by (simp add: get_readme_from_llm_def try_block_def requests_post_def)

lemma result_of_outcome:
  "snd (get_readme_from_llm net d k) =
     except_clauses
       (case net (build_request d k) of
          Failed msg \<Rightarrow> Inl (RequestException msg)
        | Responded r \<Rightarrow>
            and_then (raise_for_status r) (\<lambda>_. and_then (response_json r) extract_text))"
  by (simp add: get_readme_from_llm_def try_block_def requests_post_def and_then_def
      split: post_outcome.splits)

lemma result_failed:
  assumes "net (build_request d k) = Failed msg"
  shows "snd (get_readme_from_llm net d k) = Inr (JString (''Error connecting to the API: '' @ msg))"
  by (simp add: result_of_outcome assms)

lemma result_http_error:
  assumes "net (build_request d k) = Responded r" and "http_error_msg r \<noteq> []"
  shows "snd (get_readme_from_llm net d k) =
           Inr (JString (''Error connecting to the API: '' @ http_error_msg r))"
  by (simp add: result_of_outcome assms raise_for_status_def and_then_def)

lemma result_decoded:
  assumes "net (build_request d k) = Responded r" and "http_error_msg r = []"
    and "json_body r = Inr doc"
  shows "snd (get_readme_from_llm net d k) = except_clauses (extract_text doc)"
  by (simp add: result_of_outcome assms raise_for_status_def response_json_def and_then_def)

lemma http_error_msg_empty_iff:
  "http_error_msg r = [] \<longleftrightarrow> \<not> (400 \<le> status_code r \<and> status_code r < 600)"
  by (auto simp: http_error_msg_def)

lemma parse_error_text:
  assumes "net (build_request d k) = Responded r" and "http_error_msg r = []"
    and "json_body r = Inr doc"
    and "extract_text doc = Inl (KeyError m) \<or> extract_text doc = Inl (IndexError m)"
  shows "snd (get_readme_from_llm net d k) =
     Inr (JString (''Error parsing API response: The response structure is invalid. '' @ m))"
  using assms(4) result_decoded [of net d k r doc, OF assms(1-3)] by auto

lemma main_prints_result:
  assumes "environ ''API_KEY'' = Some k" and "k \<noteq> []"
    and "snd (get_readme_from_llm net d k) = Inr v"
  shows "main environ net d =
     \<lparr>stdout = [JString ''Generating README.md...'', v], ending = Returned,
      sent = [build_request d k]\<rparr>"
proof -
  have "get_readme_from_llm net d k = ([build_request d k], Inr v)"
    using assms(3) issued_requests [of net d k] by (cases "get_readme_from_llm net d k") simp
  then show ?thesis
    using assms(1,2) by (simp add: main_def)
qed


lemma prompt_split: "prompt d = take 635 (prompt []) @ d @ drop 635 (prompt [])"
  by (simp add: prompt_def)




lemma sublist_at: "take n (drop m ys) = xs \<Longrightarrow> sublist xs ys"
  by (metis sublist_drop sublist_take sublist_order.order_trans)

section \<open>The claims\<close>

text \<open>
  C1. When the response has a success status (2xx) and its body is the document
  \<^verbatim>\<open>{"candidates":[{"content":{"parts":[{"text": t}]}}]}\<close>, the generator returns the string
  \<open>t\<close> itself, for every \<open>t\<close>.
\<close>

theorem generate_returns_text_unchanged:
  assumes "net (build_request d k) = Responded r"
    and "200 \<le> status_code r \<and> status_code r < 300"
    and "json_body r =
           Inr (JObject [(''candidates'',
                  JArray [JObject [(''content'',
                    JObject [(''parts'', JArray [JObject [(''text'', JString t)]])])]])])"
  shows "snd (get_readme_from_llm net d k) = Inr (JString t)"
proof -
  have "http_error_msg r = []"
    using assms(2) by (simp add: http_error_msg_empty_iff)
  from result_decoded [of net d k r, OF assms(1) this assms(3)] show ?thesis
    by (simp add: extract_text_def and_then_def)
qed

theorem generate_returns_text_unchanged_witness:
  "snd (get_readme_from_llm
      (\<lambda>_. Responded \<lparr>status_code = 200, reason = ''OK'', response_url = ''https://example.test/'',
         json_body = Inr (JObject [(''candidates'',
                  JArray [JObject [(''content'',
                    JObject [(''parts'', JArray [JObject [(''text'', JString ''# Hello'')]])])]])])\<rparr>)
      ''A todo list for the terminal'' ''secret'') = Inr (JString ''# Hello'')"
  using generate_returns_text_unchanged
    [of "\<lambda>_. Responded \<lparr>status_code = 200, reason = ''OK'', response_url = ''https://example.test/'',
         json_body = Inr (JObject [(''candidates'',
                  JArray [JObject [(''content'',
                    JObject [(''parts'', JArray [JObject [(''text'', JString ''# Hello'')]])])]])])\<rparr>"
        "''A todo list for the terminal''" "''secret''"
        "\<lparr>status_code = 200, reason = ''OK'', response_url = ''https://example.test/'',
         json_body = Inr (JObject [(''candidates'',
                  JArray [JObject [(''content'',
                    JObject [(''parts'', JArray [JObject [(''text'', JString ''# Hello'')]])])]])])\<rparr>"
        "''# Hello''"]
  by simp

text \<open>
  C2. The claim: every HTTP-200 response whose body deviates from the expected shape gives a
  formatted error string, and no lookup exception leaves the function. At the body
  \<^verbatim>\<open>{"candidates": null}\<close> the subscript \<^verbatim>\<open>[0]\<close> is applied to \<^verbatim>\<open>None\<close> and raises \<^verbatim>\<open>TypeError\<close>,
  which neither \<^verbatim>\<open>except\<close> clause catches: the exception leaves the function.
\<close>

theorem null_candidates_raises_TypeError:
  "snd (get_readme_from_llm
      (\<lambda>_. Responded \<lparr>status_code = 200, reason = ''OK'', response_url = ''https://example.test/'',
         json_body = Inr (JObject [(''candidates'', JNull)])\<rparr>)
      ''A todo list for the terminal'' ''secret'') = Inl TypeError"
  by (simp add: result_of_outcome raise_for_status_def http_error_msg_def response_json_def
      extract_text_def and_then_def)

text \<open>
  C3. When the response has a status from 400 to 599, the generator returns a string that
  starts with \<^verbatim>\<open>Error connecting to the API:\<close>, and it is the string returned when the
  call itself fails with the same message: both are handled by the one \<^verbatim>\<open>except\<close> clause.
\<close>

theorem http_error_status_is_connect_error:
  assumes "net (build_request d k) = Responded r"
    and "400 \<le> status_code r \<and> status_code r < 600"
  shows "(\<exists>s. snd (get_readme_from_llm net d k) = Inr (JString s) \<and>
               prefix ''Error connecting to the API:'' s) \<and>
         snd (get_readme_from_llm net d k) =
           snd (get_readme_from_llm (\<lambda>_. Failed (http_error_msg r)) d k)"
proof -
  have "http_error_msg r \<noteq> []"
    using assms(2) by (simp add: http_error_msg_empty_iff)
  from result_http_error [of net d k r, OF assms(1) this] show ?thesis
    by (simp add: result_failed)
qed

theorem http_error_status_is_connect_error_witness:
  "\<exists>s. snd (get_readme_from_llm
       (\<lambda>_. Responded \<lparr>status_code = 500, reason = ''Internal Server Error'',
                        response_url = ''https://example.test/'', json_body = Inl ''Expecting value''\<rparr>)
        ''A todo list for the terminal'' ''secret'') = Inr (JString s) \<and>
       prefix ''Error connecting to the API:'' s"
  using http_error_status_is_connect_error
    [of "\<lambda>_. Responded \<lparr>status_code = 500, reason = ''Internal Server Error'',
                        response_url = ''https://example.test/'', json_body = Inl ''Expecting value''\<rparr>"
        "''A todo list for the terminal''" "''secret''"
        "\<lparr>status_code = 500, reason = ''Internal Server Error'',
                        response_url = ''https://example.test/'', json_body = Inl ''Expecting value''\<rparr>",
     THEN conjunct1]
  by simp

text \<open>
  C4. When the response has status 200 and its body is the empty object \<^verbatim>\<open>{}\<close>, the
  generator returns
  \<^verbatim>\<open>Error parsing API response: The response structure is invalid. 'candidates'\<close>,
  a string that starts with \<^verbatim>\<open>Error parsing API response:\<close>.
\<close>

theorem empty_object_is_parse_error:
  assumes "net (build_request d k) = Responded r"
    and "status_code r = 200"
    and "json_body r = Inr (JObject [])"
  shows "snd (get_readme_from_llm net d k) =
           Inr (JString (''Error parsing API response: The response structure is invalid. '' @
                         [CHR 0x27] @ ''candidates'' @ [CHR 0x27])) \<and>
         (\<exists>s. snd (get_readme_from_llm net d k) = Inr (JString s) \<and>
               prefix ''Error parsing API response:'' s)"
proof -
  have "http_error_msg r = []"
    using assms(2) by (simp add: http_error_msg_empty_iff)
  from result_decoded [of net d k r, OF assms(1) this assms(3)]
  have "snd (get_readme_from_llm net d k) =
           Inr (JString (''Error parsing API response: The response structure is invalid. '' @
                         [CHR 0x27] @ ''candidates'' @ [CHR 0x27]))"
    by (simp add: extract_text_def and_then_def)
  then show ?thesis by simp
qed

theorem empty_object_is_parse_error_witness:
  "\<exists>s. snd (get_readme_from_llm
       (\<lambda>_. Responded \<lparr>status_code = 200, reason = ''OK'',
                        response_url = ''https://example.test/'', json_body = Inr (JObject [])\<rparr>)
        ''A todo list for the terminal'' ''secret'') = Inr (JString s) \<and>
       prefix ''Error parsing API response:'' s"
  using empty_object_is_parse_error
    [of "\<lambda>_. Responded \<lparr>status_code = 200, reason = ''OK'',
                        response_url = ''https://example.test/'', json_body = Inr (JObject [])\<rparr>"
        "''A todo list for the terminal''" "''secret''"
        "\<lparr>status_code = 200, reason = ''OK'',
                        response_url = ''https://example.test/'', json_body = Inr (JObject [])\<rparr>"]
  by simp

text \<open>
  C5. When \<^verbatim>\<open>API_KEY\<close> is unset or empty, the process prints exactly the missing-key
  message, exits with status 1 and issues no request.
\<close>

theorem missing_api_key_exits_1:
  assumes "environ ''API_KEY'' = None \<or> environ ''API_KEY'' = Some []"
  shows "stdout (main environ net description) =
           [JString ''Error: API key not found. Please set the 'API_KEY' environment variable.''] \<and>
         ending (main environ net description) = SysExit 1 \<and>
         exit_status (ending (main environ net description)) = 1 \<and>
         sent (main environ net description) = []"
  using assms by (auto simp: main_def)

theorem missing_api_key_exits_1_witness:
  "exit_status (ending (main Map.empty (\<lambda>_. Failed ''unreachable'') ''A todo list'')) = 1 \<and>
   sent (main Map.empty (\<lambda>_. Failed ''unreachable'') ''A todo list'') = [] \<and>
   exit_status (ending (main [''API_KEY'' \<mapsto> []] (\<lambda>_. Failed ''unreachable'') ''A todo list'')) = 1 \<and>
   sent (main [''API_KEY'' \<mapsto> []] (\<lambda>_. Failed ''unreachable'') ''A todo list'') = []"
  using missing_api_key_exits_1 [of Map.empty "\<lambda>_. Failed ''unreachable''" "''A todo list''"]
    missing_api_key_exits_1 [of "[''API_KEY'' \<mapsto> []]" "\<lambda>_. Failed ''unreachable''" "''A todo list''"]
  by simp

text \<open>
  C6. The claim: with a description and a non-empty \<^verbatim>\<open>API_KEY\<close> the process always prints
  the progress line followed by the generator's string and exits with status 0. At the
  response body \<^verbatim>\<open>{"candidates": null}\<close> the \<^verbatim>\<open>TypeError\<close> of the generator is not caught in
  \<^verbatim>\<open>main\<close> either: only the progress line is printed and the process ends with status 1.
\<close>

theorem main_uncaught_TypeError_exit_1:
  "main [''API_KEY'' \<mapsto> ''secret'']
      (\<lambda>_. Responded \<lparr>status_code = 200, reason = ''OK'', response_url = ''https://example.test/'',
         json_body = Inr (JObject [(''candidates'', JNull)])\<rparr>)
      ''A todo list'' =
     \<lparr>stdout = [JString ''Generating README.md...''], ending = Uncaught TypeError,
      sent = [build_request ''A todo list'' ''secret'']\<rparr> \<and>
   exit_status (Uncaught TypeError) = 1"
proof -
  let ?net = "\<lambda>_ :: request. Responded \<lparr>status_code = 200, reason = ''OK'',
         response_url = ''https://example.test/'',
         json_body = Inr (JObject [(''candidates'', JNull)])\<rparr>"
  have "snd (get_readme_from_llm ?net ''A todo list'' ''secret'') = Inl TypeError"
    by (simp add: result_of_outcome raise_for_status_def http_error_msg_def response_json_def
        extract_text_def and_then_def)
  then have "get_readme_from_llm ?net ''A todo list'' ''secret'' =
      ([build_request ''A todo list'' ''secret''], Inl TypeError)"
    using issued_requests [of ?net "''A todo list''" "''secret''"]
    by (cases "get_readme_from_llm ?net ''A todo list'' ''secret''") simp
  then show ?thesis
    by (simp add: main_def)
qed

text \<open>
  C7. For every non-empty description, the prompt contains the description as it is, as a
  contiguous part (the text before it and the text after it do not depend on it), and it
  contains the six numbered instructions: title, description, Features, Getting Started,
  Contributing, License.
\<close>

theorem prompt_contains_description_and_sections:
  assumes "d \<noteq> []"
  shows "prompt d = take 635 (prompt []) @ d @ drop 635 (prompt []) \<and>
         sublist d (prompt d) \<and>
         sublist ''1.  A clear and catchy title.'' (prompt d) \<and>
         sublist ''2.  A brief but engaging description.'' (prompt d) \<and>
         sublist (''3.  A '' @ [CHR 0x22] @ ''Features'' @ [CHR 0x22] @
                  '' section using a bulleted list.'') (prompt d) \<and>
         sublist (''4.  A '' @ [CHR 0x22] @ ''Getting Started'' @ [CHR 0x22] @
                  '' section with instructions for installation and usage.'') (prompt d) \<and>
         sublist (''5.  A '' @ [CHR 0x22] @ ''Contributing'' @ [CHR 0x22] @ '' section.'') (prompt d) \<and>
         sublist (''6.  A '' @ [CHR 0x22] @ ''License'' @ [CHR 0x22] @ '' section.'') (prompt d)"
proof -
  have 0: "sublist d (prompt d)"
    by (subst prompt_split) (rule sublist_appendI)
  have 1: "sublist ''1.  A clear and catchy title.'' (prompt d)"
    by (rule sublist_at [where m = 250 and n = 29]) (simp add: prompt_def)
  have 2: "sublist ''2.  A brief but engaging description.'' (prompt d)"
    by (rule sublist_at [where m = 284 and n = 37]) (simp add: prompt_def)
  have 3: "sublist (''3.  A '' @ [CHR 0x22] @ ''Features'' @ [CHR 0x22] @
                  '' section using a bulleted list.'') (prompt d)"
    by (rule sublist_at [where m = 326 and n = 47]) (simp add: prompt_def)
  have 4: "sublist (''4.  A '' @ [CHR 0x22] @ ''Getting Started'' @ [CHR 0x22] @
                  '' section with instructions for installation and usage.'') (prompt d)"
    by (rule sublist_at [where m = 378 and n = 77]) (simp add: prompt_def)
  have 5: "sublist (''5.  A '' @ [CHR 0x22] @ ''Contributing'' @ [CHR 0x22] @ '' section.'')
             (prompt d)"
    by (rule sublist_at [where m = 460 and n = 29]) (simp add: prompt_def)
  have 6: "sublist (''6.  A '' @ [CHR 0x22] @ ''License'' @ [CHR 0x22] @ '' section.'')
             (prompt d)"
    by (rule sublist_at [where m = 494 and n = 24]) (simp add: prompt_def)
  show ?thesis
    using prompt_split [of d] 0 1 2 3 4 5 6 by blast
qed

theorem prompt_contains_description_and_sections_witness:
  "sublist ''<b>&amp; \<newline> {x}'' (prompt ''<b>&amp; \<newline> {x}'') \<and>
   sublist ''1.  A clear and catchy title.'' (prompt ''<b>&amp; \<newline> {x}'')"
proof -
  have "''<b>&amp; \<newline> {x}'' \<noteq> []"
    by simp
  from prompt_contains_description_and_sections [OF this] show ?thesis
    by blast
qed






end
